theory Spec2Isabelle
  imports Complex_Main
begin

section \<open>The detection notebook\<close>

text \<open>
  The repository is one notebook, \<^verbatim>\<open>classifier.ipynb\<close>. Its code cells are straight-line
  Python: they bind global names and call into \<^verbatim>\<open>torch\<close>, \<^verbatim>\<open>os\<close> and PytorchWildlife.
  The bodies of those library functions are not part of the repository, so the model keeps
  them opaque: every call the notebook issues is appended to a log together with the
  arguments it was given, and the values the libraries hand back (the model object, its
  class names, the detection results) come from a record of library answers.

  A global name that is read before it is bound raises \<^verbatim>\<open>NameError\<close> in Python; the
  globals are therefore optional fields and every cell returns either an error or the
  new state.

  The model follows the run in which every library call returns. An exception raised
  inside a library (\<^verbatim>\<open>os.makedirs\<close> on a path that is a regular file, a model download
  that fails, an unreadable image) ends the real run at that call; whether one is raised
  depends on the file system and on library code that is not part of the repository, and
  it is not represented here. The log says which calls are issued and with which
  arguments, not what they do to the files.
\<close>

subsection \<open>Data\<close>

type_synonym path = string

text \<open>
  One constructor per library call that occurs in the notebook, with the arguments in the
  order of the callee's parameters:
  \<^item> \<^verbatim>\<open>torch.cuda.set_device(0)\<close>
  \<^item> \<^verbatim>\<open>pw_detection.MegaDetectorV6(device=, pretrained=, version=)\<close>
  \<^item> \<^verbatim>\<open>detection_model.batch_image_detection(tgt_folder_path, batch_size=16)\<close>
  \<^item> \<^verbatim>\<open>os.makedirs(path, exist_ok=)\<close>
  \<^item> \<^verbatim>\<open>pw_utils.save_detection_json(results, json_file, categories=,
       exclude_category_ids=, exclude_file_path=)\<close>
  \<^item> \<^verbatim>\<open>pw_utils.save_detection_images(results, output_path)\<close>
  \<^item> \<^verbatim>\<open>pw_utils.detection_folder_separation(json_file, output_path, classified_path,
       threshold)\<close>
\<close>

datatype ('m, 'r, 'c) call =
    Cuda_set_device int
  | MegaDetectorV6 string bool string
  | Batch_image_detection 'm path nat
  | Makedirs path bool
  | Save_detection_json 'r path 'c "int list" path
  | Save_detection_images 'r path
  | Detection_folder_separation path path path real

text \<open>What the libraries answer. \<open>'m\<close> is the model object, \<open>'r\<close> the detection results,
  \<open>'c\<close> the value of \<^verbatim>\<open>detection_model.CLASS_NAMES\<close>.\<close>

record ('m, 'r, 'c) library =
  cuda_is_available :: bool
  new_MegaDetectorV6 :: "string \<Rightarrow> bool \<Rightarrow> string \<Rightarrow> 'm"
  CLASS_NAMES :: "'m \<Rightarrow> 'c"
  batch_image_detection :: "'m \<Rightarrow> path \<Rightarrow> nat \<Rightarrow> 'r"

text \<open>The notebook's global names, and the log of calls issued so far.\<close>

record ('m, 'r, 'c) notebook_state =
  DEVICE :: "string option"
  detection_model :: "'m option"
  tgt_folder_path :: "path option"
  output_path :: "path option"
  classified_path :: "path option"
  threshold :: "real option"
  results :: "'r option"
  json_file :: "path option"
  calls :: "('m, 'r, 'c) call list"

datatype error = NameError string

definition fresh_kernel :: "('m, 'r, 'c) notebook_state" where
  "fresh_kernel =
     \<lparr>DEVICE = None, detection_model = None, tgt_folder_path = None, output_path = None,
      classified_path = None, threshold = None, results = None, json_file = None,
      calls = []\<rparr>"

definition global_name :: "string \<Rightarrow> 'a option \<Rightarrow> error + 'a" where
  "global_name n v = (case v of None \<Rightarrow> Inl (NameError n) | Some x \<Rightarrow> Inr x)"

definition log_call ::
  "('m, 'r, 'c) call \<Rightarrow> ('m, 'r, 'c) notebook_state \<Rightarrow> ('m, 'r, 'c) notebook_state" where
  "log_call c s = s\<lparr>calls := calls s @ [c]\<rparr>"

text \<open>
  \<^verbatim>\<open>os.path.join(a, b)\<close> with two components, as \<^verbatim>\<open>posixpath.join\<close> computes it: an
  absolute second component replaces the first, otherwise the two are joined with one
  separator unless the first is empty or already ends in one.
\<close>

definition os_path_join :: "path \<Rightarrow> path \<Rightarrow> path" where
  "os_path_join a b =
     (if take 1 b = ''/'' then b
      else if a = [] \<or> last a = CHR ''/'' then a @ b
      else a @ ''/'' @ b)"

subsection \<open>The code cells\<close>

text \<open>
  \<^verbatim>\<open>
  DEVICE = "cuda" if torch.cuda.is_available() else "cpu"
  if DEVICE == "cuda":
      torch.cuda.set_device(0)
  detection_model = pw_detection.MegaDetectorV6(
      device=DEVICE, pretrained=True, version="yolov9c"
  )
  \<close>
\<close>

definition cell_model_initialization ::
  "('m, 'r, 'c) library \<Rightarrow> ('m, 'r, 'c) notebook_state \<Rightarrow> error + ('m, 'r, 'c) notebook_state"
where
  "cell_model_initialization L s =
     (let dev = (if cuda_is_available L then ''cuda'' else ''cpu'');
          s1 = s\<lparr>DEVICE := Some dev\<rparr>;
          s2 = (if dev = ''cuda'' then log_call (Cuda_set_device 0) s1 else s1);
          s3 = log_call (MegaDetectorV6 dev True ''yolov9c'') s2
      in Inr (s3\<lparr>detection_model := Some (new_MegaDetectorV6 L dev True ''yolov9c'')\<rparr>))"

text \<open>
  \<^verbatim>\<open>
  tgt_folder_path = "./imgs"
  output_path = "output"
  classified_path = "classified"
  threshold = 0.2
  \<close>
  A Python float is a binary64 double; the literal \<^verbatim>\<open>0.2\<close> denotes the double nearest
  to one fifth, \<open>3602879701896397 / 2 ^ 54\<close>, and that is the number bound to
  \<open>threshold\<close>.
\<close>

definition literal_0_2 :: real where
  "literal_0_2 = 3602879701896397 / 18014398509481984"

definition cell_variable_definition ::
  "('m, 'r, 'c) notebook_state \<Rightarrow> error + ('m, 'r, 'c) notebook_state"
where
  "cell_variable_definition s =
     Inr (s\<lparr>tgt_folder_path := Some ''./imgs'',
            output_path := Some ''output'',
            classified_path := Some ''classified'',
            threshold := Some literal_0_2\<rparr>)"

text \<open>
  \<^verbatim>\<open>
  results = detection_model.batch_image_detection(tgt_folder_path, batch_size=16)
  \<close>
\<close>

definition cell_batch_image_detection ::
  "('m, 'r, 'c) library \<Rightarrow> ('m, 'r, 'c) notebook_state \<Rightarrow> error + ('m, 'r, 'c) notebook_state"
where
  "cell_batch_image_detection L s =
     (case global_name ''detection_model'' (detection_model s) of
        Inl e \<Rightarrow> Inl e
      | Inr m \<Rightarrow>
     (case global_name ''tgt_folder_path'' (tgt_folder_path s) of
        Inl e \<Rightarrow> Inl e
      | Inr tgt \<Rightarrow>
          Inr ((log_call (Batch_image_detection m tgt 16) s)
                 \<lparr>results := Some (batch_image_detection L m tgt 16)\<rparr>)))"

text \<open>
  \<^verbatim>\<open>
  os.makedirs(output_path, exist_ok=True)
  os.makedirs(classified_path, exist_ok=True)
  json_file = os.path.join(output_path, "detection_results.json")
  pw_utils.save_detection_json(
      results,
      json_file,
      categories=detection_model.CLASS_NAMES,
      exclude_category_ids=[],
      exclude_file_path=tgt_folder_path,
  )

  pw_utils.save_detection_images(results, output_path)

  pw_utils.detection_folder_separation(json_file, output_path, classified_path, threshold)
  \<close>
  Names are looked up in the order Python evaluates them, statement by statement and
  argument by argument, so the first unbound one is the error reported.
\<close>

definition cell_separate ::
  "('m, 'r, 'c) library \<Rightarrow> ('m, 'r, 'c) notebook_state \<Rightarrow> error + ('m, 'r, 'c) notebook_state"
where
  "cell_separate L s =
     (case global_name ''output_path'' (output_path s) of
        Inl e \<Rightarrow> Inl e
      | Inr out \<Rightarrow>
     (case global_name ''classified_path'' (classified_path s) of
        Inl e \<Rightarrow> Inl e
      | Inr cls \<Rightarrow>
     (case global_name ''results'' (results s) of
        Inl e \<Rightarrow> Inl e
      | Inr res \<Rightarrow>
     (case global_name ''detection_model'' (detection_model s) of
        Inl e \<Rightarrow> Inl e
      | Inr m \<Rightarrow>
     (case global_name ''tgt_folder_path'' (tgt_folder_path s) of
        Inl e \<Rightarrow> Inl e
      | Inr tgt \<Rightarrow>
     (case global_name ''threshold'' (threshold s) of
        Inl e \<Rightarrow> Inl e
      | Inr thr \<Rightarrow>
          (let s1 = log_call (Makedirs out True) s;
               s2 = log_call (Makedirs cls True) s1;
               jf = os_path_join out ''detection_results.json'';
               s3 = s2\<lparr>json_file := Some jf\<rparr>;
               s4 = log_call (Save_detection_json res jf (CLASS_NAMES L m) [] tgt) s3;
               s5 = log_call (Save_detection_images res out) s4;
               s6 = log_call (Detection_folder_separation jf out cls thr) s5
           in Inr s6)))))))"

text \<open>Running one cell after another; an error stops the run.\<close>

definition then_cell :: "error + 's \<Rightarrow> ('s \<Rightarrow> error + 's) \<Rightarrow> error + 's" where
  "then_cell r cell = (case r of Inl e \<Rightarrow> Inl e | Inr s \<Rightarrow> cell s)"

text \<open>The notebook run top to bottom on a fresh kernel. The first code cell only imports
  modules and binds none of the names above.\<close>

definition notebook ::
  "('m, 'r, 'c) library \<Rightarrow> error + ('m, 'r, 'c) notebook_state"
where
  "notebook L =
     then_cell
       (then_cell
          (then_cell (cell_model_initialization L fresh_kernel) cell_variable_definition)
          (cell_batch_image_detection L))
       (cell_separate L)"

subsection \<open>Reading the call log\<close>

fun set_device_index :: "('m, 'r, 'c) call \<Rightarrow> int option" where
  "set_device_index (Cuda_set_device i) = Some i"
| "set_device_index _ = None"

fun model_device :: "('m, 'r, 'c) call \<Rightarrow> string option" where
  "model_device (MegaDetectorV6 dev pre ver) = Some dev"
| "model_device _ = None"

text \<open>
  The part of a call that does not depend on the device: \<^verbatim>\<open>set_device\<close> calls are
  dropped, the \<^verbatim>\<open>device=\<close> argument is blanked, and the opaque library values (which the
  library computes from a model living on that device) are forgotten.
\<close>

fun device_independent_part :: "('m, 'r, 'c) call \<Rightarrow> (unit, unit, unit) call option" where
  "device_independent_part (Cuda_set_device i) = None"
| "device_independent_part (MegaDetectorV6 dev pre ver) = Some (MegaDetectorV6 [] pre ver)"
| "device_independent_part (Batch_image_detection m dir bs) =
     Some (Batch_image_detection () dir bs)"
| "device_independent_part (Makedirs p ok) = Some (Makedirs p ok)"
| "device_independent_part (Save_detection_json res jf cats excl pre) =
     Some (Save_detection_json () jf () excl pre)"
| "device_independent_part (Save_detection_images res out) =
     Some (Save_detection_images () out)"
| "device_independent_part (Detection_folder_separation jf src dst thr) =
     Some (Detection_folder_separation jf src dst thr)"

section \<open>Properties\<close>

lemma notebook_runs:
  "notebook L =
     Inr \<lparr>DEVICE = Some (if cuda_is_available L then ''cuda'' else ''cpu''),
          detection_model =
            Some (new_MegaDetectorV6 L (if cuda_is_available L then ''cuda'' else ''cpu'')
                    True ''yolov9c''),
          tgt_folder_path = Some ''./imgs'',
          output_path = Some ''output'',
          classified_path = Some ''classified'',
          threshold = Some literal_0_2,
          results =
            Some (batch_image_detection L
                    (new_MegaDetectorV6 L (if cuda_is_available L then ''cuda'' else ''cpu'')
                       True ''yolov9c'')
                    ''./imgs'' 16),
          json_file = Some ''output/detection_results.json'',
          calls =
            (if cuda_is_available L then [Cuda_set_device 0] else []) @
            [MegaDetectorV6 (if cuda_is_available L then ''cuda'' else ''cpu'') True ''yolov9c'',
             Batch_image_detection
               (new_MegaDetectorV6 L (if cuda_is_available L then ''cuda'' else ''cpu'')
                  True ''yolov9c'')
               ''./imgs'' 16,
             Makedirs ''output'' True,
             Makedirs ''classified'' True,
             Save_detection_json
               (batch_image_detection L
                  (new_MegaDetectorV6 L (if cuda_is_available L then ''cuda'' else ''cpu'')
                     True ''yolov9c'')
                  ''./imgs'' 16)
               ''output/detection_results.json''
               (CLASS_NAMES L
                  (new_MegaDetectorV6 L (if cuda_is_available L then ''cuda'' else ''cpu'')
                     True ''yolov9c''))
               [] ''./imgs'',
             Save_detection_images
               (batch_image_detection L
                  (new_MegaDetectorV6 L (if cuda_is_available L then ''cuda'' else ''cpu'')
                     True ''yolov9c'')
                  ''./imgs'' 16)
               ''output'',
             Detection_folder_separation ''output/detection_results.json'' ''output''
               ''classified'' literal_0_2]\<rparr>"
  by (simp add: notebook_def then_cell_def cell_model_initialization_def
      cell_variable_definition_def cell_batch_image_detection_def cell_separate_def
      fresh_kernel_def global_name_def log_call_def os_path_join_def Let_def)

text \<open>
  Claim C10. The device-selection step binds \<open>DEVICE\<close> to \<open>''cuda''\<close> exactly when
  \<^verbatim>\<open>torch.cuda.is_available()\<close> answers true and to \<open>''cpu''\<close> otherwise.
  \<^verbatim>\<open>torch.cuda.set_device\<close> is called, once and with index 0, exactly in the
  \<open>''cuda''\<close> case, and the model is constructed on the chosen device. Whatever the
  answer, the run completes with the same remaining calls in the same order and with the
  same arguments (the device argument and the values computed by the library apart) and
  with the same paths, threshold and JSON file name.
\<close>

theorem device_selection:
  fixes L :: "('m, 'r, 'c) library"
  shows "\<exists>s t u.
     notebook L = Inr s \<and>
     DEVICE s = Some (if cuda_is_available L then ''cuda'' else ''cpu'') \<and>
     (DEVICE s = Some ''cuda'') = cuda_is_available L \<and>
     (DEVICE s = Some ''cpu'') = (\<not> cuda_is_available L) \<and>
     List.map_filter set_device_index (calls s) =
       (if DEVICE s = Some ''cuda'' then [0] else []) \<and>
     (Cuda_set_device 0 \<in> set (calls s)) = (DEVICE s = Some ''cuda'') \<and>
     map Some (List.map_filter model_device (calls s)) = [DEVICE s] \<and>
     notebook (L\<lparr>cuda_is_available := True\<rparr>) = Inr t \<and>
     notebook (L\<lparr>cuda_is_available := False\<rparr>) = Inr u \<and>
     List.map_filter device_independent_part (calls t) =
       List.map_filter device_independent_part (calls u) \<and>
     tgt_folder_path t = tgt_folder_path u \<and>
     output_path t = output_path u \<and>
     classified_path t = classified_path u \<and>
     threshold t = threshold u \<and>
     json_file t = json_file u"
  by (simp add: notebook_runs)

end
